theory Spec2Isabelle
  imports Main
begin

section \<open>Values exchanged with the gateway\<close>

text \<open>
  The client passes JSON values through without inspecting them, except for the two
  dictionary lookups of the list operations. A Python \<open>dict\<close> is an association list
  (a parsed object has distinct keys); a float is kept as its literal, since the client
  never computes with it.
\<close>

datatype json =
    JNull
  | JBool bool
  | JInt int
  | JFloat string
  | JStr string
  | JArr "json list"
  | JObj "(string \<times> json) list"

type_synonym dict = "(string \<times> json) list"

text \<open>
  The exceptions that can leave a method of either client. \<open>ConnectionError\<close> is
  Python's builtin of that name (neither module imports another one), \<open>ValueError\<close>
  the builtin raised for a verb outside the dispatch chain, \<open>AttributeError\<close> what
  \<open>.get\<close> raises on a value that is not a \<open>dict\<close>, and \<open>JSONDecodeError\<close> the
  decoding error of a transport library old enough not to derive it from
  \<open>RequestException\<close>. Each carries its message.
\<close>

datatype error =
    ValueError string
  | ConnectionError string
  | JSONDecodeError string
  | AttributeError string

section \<open>Python string operations used by the clients\<close>

text \<open>\<open>s.rstrip('/')\<close> and \<open>s.lstrip('/')\<close>: every trailing, every leading slash goes.\<close>

definition lstrip_slash :: "string \<Rightarrow> string" where
  "lstrip_slash s = dropWhile (\<lambda>c. c = CHR ''/'') s"

definition rstrip_slash :: "string \<Rightarrow> string" where
  "rstrip_slash s = rev (dropWhile (\<lambda>c. c = CHR ''/'') (rev s))"

text \<open>
  \<open>s.upper()\<close>. A character is a code point below 256. On these Python maps the
  letters a to z to A to Z; the other code points either stay, or go to code points
  that are no ASCII letter of a verb (the sharp s becomes SS, which no verb contains),
  so that every comparison of \<open>upper s\<close> with a verb literal has Python's result.
  Strings with code points from 256 on are outside the model (Python sends the long s
  and the st ligatures to ASCII letters).
\<close>

definition upper_char :: "char \<Rightarrow> char" where
  "upper_char c =
     (case map_of (zip ''abcdefghijklmnopqrstuvwxyz'' ''ABCDEFGHIJKLMNOPQRSTUVWXYZ'') c of
        Some u \<Rightarrow> u
      | None \<Rightarrow> c)"

definition upper :: "string \<Rightarrow> string" where
  "upper s = map upper_char s"

text \<open>\<open>str(n)\<close> of an integer, as an f-string renders it: decimal, with a sign when negative.\<close>

fun str_nat :: "nat \<Rightarrow> string" where
  "str_nat n =
     (if n < 10 then [''0123456789'' ! n]
      else str_nat (n div 10) @ [''0123456789'' ! (n mod 10)])"

declare str_nat.simps [simp del]

definition str_int :: "int \<Rightarrow> string" where
  "str_int i = (if i < 0 then CHR ''-'' # str_nat (nat (- i)) else str_nat (nat i))"

text \<open>The name Python prints for the type of a parsed JSON value.\<close>

fun type_name :: "json \<Rightarrow> string" where
  "type_name JNull = ''NoneType''"
| "type_name (JBool b) = ''bool''"
| "type_name (JInt i) = ''int''"
| "type_name (JFloat f) = ''float''"
| "type_name (JStr s) = ''str''"
| "type_name (JArr xs) = ''list''"
| "type_name (JObj kvs) = ''dict''"

definition quoted :: "string \<Rightarrow> string" where
  "quoted s = CHR 0x27 # s @ [CHR 0x27]"

text \<open>
  \<open>v.get(k, d)\<close>: on a \<open>dict\<close> the value at \<open>k\<close>, or \<open>d\<close> when the key is
  missing; on any other value the attribute does not exist and Python raises.
\<close>

definition py_get :: "json \<Rightarrow> string \<Rightarrow> json \<Rightarrow> error + json" where
  "py_get v k d =
     (case v of
        JObj kvs \<Rightarrow> Inr (case map_of kvs k of None \<Rightarrow> d | Some x \<Rightarrow> x)
      | _ \<Rightarrow> Inl (AttributeError
                 (quoted (type_name v) @ '' object has no attribute '' @ quoted ''get'')))"

section \<open>The transport library\<close>

text \<open>
  The \<open>requests\<close> library is not part of the repository: it is a parameter of the model.
  A call of \<open>requests.get\<close>, \<open>post\<close>, \<open>put\<close>, \<open>delete\<close> or \<open>patch\<close> is an
  \<open>http_request\<close>; the library answers it either by raising a \<open>RequestException\<close>
  (with the text of \<open>str(e)\<close>) or with a response. \<open>response.json()\<close> is part of the
  answer: the parsed value, or a decoding error, which derives from \<open>RequestException\<close>
  in the library's current versions and from \<open>ValueError\<close> alone in its older ones
  (the package accepts both).
\<close>

datatype http_verb = GET | POST | PUT | DELETE | PATCH

record http_request =
  req_verb :: http_verb
  req_url :: string
  req_headers :: "(string \<times> string) list"
  req_json :: "dict option"

datatype json_outcome =
    Json_value json
  | Json_request_exception string
  | Json_other_exception string

record response =
  status_code :: int
  reason :: string
  resp_url :: string
  content :: string
  json_result :: json_outcome

datatype outcome = Request_exception string | Response response

type_synonym transport = "http_request \<Rightarrow> outcome"

text \<open>
  \<open>response.raise_for_status()\<close> of the library: \<open>Some msg\<close> when it raises
  \<open>HTTPError(msg)\<close>, a \<open>RequestException\<close>; \<open>None\<close> when it returns. It raises for
  the statuses 400 to 599 and for no other.
\<close>

definition raise_for_status :: "response \<Rightarrow> string option" where
  "raise_for_status r =
     (if 400 \<le> status_code r \<and> status_code r < 500 then
        Some (str_int (status_code r) @ '' Client Error: '' @ reason r
              @ '' for url: '' @ resp_url r)
      else if 500 \<le> status_code r \<and> status_code r < 600 then
        Some (str_int (status_code r) @ '' Server Error: '' @ reason r
              @ '' for url: '' @ resp_url r)
      else None)"

section \<open>The two clients\<close>

text \<open>
  \<open>Admin\<close> and \<open>Control\<close> have the same three fields and the same constructor. The
  state a method runs in is the client object together with the requests issued so far.
\<close>

record client =
  base_url :: string
  api_key :: string
  headers :: "(string \<times> string) list"

record state =
  self :: client
  sent :: "http_request list"

definition Admin_init :: "string \<Rightarrow> string \<Rightarrow> client" where
  "Admin_init b k =
     \<lparr>base_url = rstrip_slash b, api_key = k,
      headers = [(''Content-Type'', ''application/json''), (''X-API-KEY'', k)]\<rparr>"

definition Control_init :: "string \<Rightarrow> string \<Rightarrow> client" where
  "Control_init b k =
     \<lparr>base_url = rstrip_slash b, api_key = k,
      headers = [(''Content-Type'', ''application/json''), (''X-API-KEY'', k)]\<rparr>"

text \<open>
  What follows the dispatch inside the \<open>try\<close> block, and the \<open>except\<close> clause:
  every \<open>RequestException\<close> (from the call, from \<open>raise_for_status\<close>, from
  \<open>json()\<close>) becomes a \<open>ConnectionError\<close> with the fixed prefix; any other exception
  passes.
\<close>

definition conn_error :: "string \<Rightarrow> error" where
  "conn_error msg = ConnectionError (''Error connecting to APISIX: '' @ msg)"

definition settle :: "outcome \<Rightarrow> error + json" where
  "settle out =
     (case out of
        Request_exception msg \<Rightarrow> Inl (conn_error msg)
      | Response r \<Rightarrow>
          (case raise_for_status r of
             Some msg \<Rightarrow> Inl (conn_error msg)
           | None \<Rightarrow>
               (case json_result r of
                  Json_value v \<Rightarrow> Inr v
                | Json_request_exception msg \<Rightarrow> Inl (conn_error msg)
                | Json_other_exception msg \<Rightarrow> Inl (JSONDecodeError msg))))"

definition issue :: "transport \<Rightarrow> http_request \<Rightarrow> state \<Rightarrow> (error + json) \<times> state" where
  "issue t rq s = (settle (t rq), s\<lparr>sent := sent s @ [rq]\<rparr>)"

definition Admin_make_request ::
  "transport \<Rightarrow> string \<Rightarrow> string \<Rightarrow> dict option \<Rightarrow> state \<Rightarrow> (error + json) \<times> state" where
  "Admin_make_request t method endpoint data s =
     (let url = base_url (self s) @ ''/'' @ lstrip_slash endpoint in
      if upper method = ''GET'' then
        issue t \<lparr>req_verb = GET, req_url = url, req_headers = headers (self s), req_json = None\<rparr> s
      else if upper method = ''POST'' then
        issue t \<lparr>req_verb = POST, req_url = url, req_headers = headers (self s), req_json = data\<rparr> s
      else if upper method = ''PUT'' then
        issue t \<lparr>req_verb = PUT, req_url = url, req_headers = headers (self s), req_json = data\<rparr> s
      else if upper method = ''DELETE'' then
        issue t \<lparr>req_verb = DELETE, req_url = url, req_headers = headers (self s), req_json = None\<rparr> s
      else if upper method = ''PATCH'' then
        issue t \<lparr>req_verb = PATCH, req_url = url, req_headers = headers (self s), req_json = data\<rparr> s
      else (Inl (ValueError (''Unsupported HTTP method: '' @ method)), s))"

definition Control_make_request ::
  "transport \<Rightarrow> string \<Rightarrow> string \<Rightarrow> dict option \<Rightarrow> state \<Rightarrow> (error + json) \<times> state" where
  "Control_make_request t method endpoint data s =
     (let url = base_url (self s) @ ''/'' @ lstrip_slash endpoint in
      if upper method = ''GET'' then
        issue t \<lparr>req_verb = GET, req_url = url, req_headers = headers (self s), req_json = None\<rparr> s
      else if upper method = ''POST'' then
        issue t \<lparr>req_verb = POST, req_url = url, req_headers = headers (self s), req_json = data\<rparr> s
      else if upper method = ''PUT'' then
        issue t \<lparr>req_verb = PUT, req_url = url, req_headers = headers (self s), req_json = data\<rparr> s
      else (Inl (ValueError (''Unsupported HTTP method: '' @ method)), s))"

text \<open>\<open>response.get('node', {}).get('nodes', [])\<close>, applied to what the request returned.\<close>

definition nodes_of :: "json \<Rightarrow> error + json" where
  "nodes_of response =
     (case py_get response ''node'' (JObj []) of
        Inl e \<Rightarrow> Inl e
      | Inr node \<Rightarrow> py_get node ''nodes'' (JArr []))"

definition unwrap :: "(error + json) \<times> state \<Rightarrow> (error + json) \<times> state" where
  "unwrap rs = (case fst rs of Inl e \<Rightarrow> rs | Inr response \<Rightarrow> (nodes_of response, snd rs))"

section \<open>The public methods of the Admin client\<close>

text \<open>
  One constructor per public method of \<open>Admin\<close>, with the method's arguments: an
  identifier is a string, a configuration a \<open>dict\<close>, \<open>ttl\<close> an optional integer.
  The methods are grouped as the source groups them, one datatype and one function per
  group, with one equation per method in the order of the source.
\<close>

text \<open>\<open>if subsystem:\<close> holds for a string that is present and not empty.\<close>

definition truthy :: "string option \<Rightarrow> bool" where
  "truthy x = (case x of None \<Rightarrow> False | Some v \<Rightarrow> v \<noteq> [])"

subsection \<open>Routes API\<close>

datatype route_method =
    A_list_routes
  | A_get_route string
  | A_create_route dict "int option"
  | A_update_route string dict "int option"
  | A_update_route_with_path string string dict "int option"
  | A_create_route_with_id string dict "int option"
  | A_delete_route string

primrec Admin_route_api :: "transport \<Rightarrow> route_method \<Rightarrow> state \<Rightarrow> (error + json) \<times> state" where
  "Admin_route_api t A_list_routes s = unwrap (Admin_make_request t ''GET'' ''/routes'' None s)"
| "Admin_route_api t (A_get_route route_id) s =
     Admin_make_request t ''GET'' (''/routes/'' @ route_id) None s"
| "Admin_route_api t (A_create_route route_config ttl) s =
     (case ttl of
        Some n \<Rightarrow> Admin_make_request t ''POST'' (''/routes?ttl='' @ str_int n) (Some route_config) s
      | None \<Rightarrow> Admin_make_request t ''POST'' ''/routes'' (Some route_config) s)"
| "Admin_route_api t (A_update_route route_id route_config ttl) s =
     (case ttl of
        Some n \<Rightarrow> Admin_make_request t ''PATCH'' (''/routes/'' @ route_id @ ''?ttl='' @ str_int n)
                    (Some route_config) s
      | None \<Rightarrow> Admin_make_request t ''PATCH'' (''/routes/'' @ route_id) (Some route_config) s)"
| "Admin_route_api t (A_update_route_with_path route_id route_path route_config ttl) s =
     (case ttl of
        Some n \<Rightarrow> Admin_make_request t ''PATCH''
                    (''/routes/'' @ route_id @ ''/'' @ route_path @ ''?ttl='' @ str_int n)
                    (Some route_config) s
      | None \<Rightarrow> Admin_make_request t ''PATCH'' (''/routes/'' @ route_id @ ''/'' @ route_path)
                    (Some route_config) s)"
| "Admin_route_api t (A_create_route_with_id route_id route_config ttl) s =
     (case ttl of
        Some n \<Rightarrow> Admin_make_request t ''PUT'' (''/routes/'' @ route_id @ ''?ttl='' @ str_int n)
                    (Some route_config) s
      | None \<Rightarrow> Admin_make_request t ''PUT'' (''/routes/'' @ route_id) (Some route_config) s)"
| "Admin_route_api t (A_delete_route route_id) s =
     Admin_make_request t ''DELETE'' (''/routes/'' @ route_id) None s"

subsection \<open>service API\<close>

datatype service_method =
    A_list_services
  | A_get_service string
  | A_create_service dict
  | A_update_service string dict
  | A_update_service_with_path string string dict
  | A_create_service_with_id string dict
  | A_delete_service string

primrec Admin_service_api :: "transport \<Rightarrow> service_method \<Rightarrow> state \<Rightarrow> (error + json) \<times> state" where
  "Admin_service_api t A_list_services s = unwrap (Admin_make_request t ''GET'' ''/services'' None s)"
| "Admin_service_api t (A_get_service service_id) s =
     Admin_make_request t ''GET'' (''/services/'' @ service_id) None s"
| "Admin_service_api t (A_create_service service_config) s =
     Admin_make_request t ''POST'' ''/services'' (Some service_config) s"
| "Admin_service_api t (A_update_service service_id service_config) s =
     Admin_make_request t ''PATCH'' (''/services/'' @ service_id) (Some service_config) s"
| "Admin_service_api t (A_update_service_with_path service_id service_path service_config) s =
     Admin_make_request t ''PATCH'' (''/services/'' @ service_id @ ''/'' @ service_path)
       (Some service_config) s"
| "Admin_service_api t (A_create_service_with_id service_id service_config) s =
     Admin_make_request t ''PUT'' (''/services/'' @ service_id) (Some service_config) s"
| "Admin_service_api t (A_delete_service service_id) s =
     Admin_make_request t ''DELETE'' (''/services/'' @ service_id) None s"

subsection \<open>Consumer API\<close>

datatype consumer_method =
    A_list_consumers
  | A_get_consumer string
  | A_create_consumer dict
  | A_update_consumer string dict
  | A_delete_consumer string

primrec Admin_consumer_api :: "transport \<Rightarrow> consumer_method \<Rightarrow> state \<Rightarrow> (error + json) \<times> state" where
  "Admin_consumer_api t A_list_consumers s = unwrap (Admin_make_request t ''GET'' ''/consumers'' None s)"
| "Admin_consumer_api t (A_get_consumer username) s =
     Admin_make_request t ''GET'' (''/consumers/'' @ username) None s"
| "Admin_consumer_api t (A_create_consumer consumer_config) s =
     Admin_make_request t ''POST'' ''/consumers'' (Some consumer_config) s"
| "Admin_consumer_api t (A_update_consumer username consumer_config) s =
     Admin_make_request t ''PUT'' (''/consumers/'' @ username) (Some consumer_config) s"
| "Admin_consumer_api t (A_delete_consumer username) s =
     Admin_make_request t ''DELETE'' (''/consumers/'' @ username) None s"

subsection \<open>Credential API\<close>

datatype credential_method =
    A_list_consumer_credentials string
  | A_get_consumer_credential string string
  | A_create_or_update_consumer_credential string string dict
  | A_delete_consumer_credential string string

primrec Admin_credential_api :: "transport \<Rightarrow> credential_method \<Rightarrow> state \<Rightarrow> (error + json) \<times> state" where
  "Admin_credential_api t (A_list_consumer_credentials username) s =
     Admin_make_request t ''GET'' (''/consumers/'' @ username @ ''/credentials'') None s"
| "Admin_credential_api t (A_get_consumer_credential username credential_id) s =
     Admin_make_request t ''GET''
       (''/consumers/'' @ username @ ''/credentials/'' @ credential_id) None s"
| "Admin_credential_api t (A_create_or_update_consumer_credential username credential_id credential_config) s =
     Admin_make_request t ''PUT''
       (''/consumers/'' @ username @ ''/credentials/'' @ credential_id) (Some credential_config) s"
| "Admin_credential_api t (A_delete_consumer_credential username credential_id) s =
     Admin_make_request t ''DELETE''
       (''/consumers/'' @ username @ ''/credentials/'' @ credential_id) None s"

subsection \<open>Upstream API\<close>

datatype upstream_method =
    A_list_upstreams
  | A_get_upstream string
  | A_create_upstream_with_id string dict
  | A_create_upstream dict
  | A_update_upstream string dict
  | A_update_upstream_with_path string string dict
  | A_delete_upstream string

primrec Admin_upstream_api :: "transport \<Rightarrow> upstream_method \<Rightarrow> state \<Rightarrow> (error + json) \<times> state" where
  "Admin_upstream_api t A_list_upstreams s = unwrap (Admin_make_request t ''GET'' ''/upstreams'' None s)"
| "Admin_upstream_api t (A_get_upstream upstream_id) s =
     Admin_make_request t ''GET'' (''/upstreams/'' @ upstream_id) None s"
| "Admin_upstream_api t (A_create_upstream_with_id upstream_id upstream_config) s =
     Admin_make_request t ''PUT'' (''/upstreams/'' @ upstream_id) (Some upstream_config) s"
| "Admin_upstream_api t (A_create_upstream upstream_config) s =
     Admin_make_request t ''POST'' ''/upstreams'' (Some upstream_config) s"
| "Admin_upstream_api t (A_update_upstream upstream_id upstream_config) s =
     Admin_make_request t ''PATCH'' (''/upstreams/'' @ upstream_id) (Some upstream_config) s"
| "Admin_upstream_api t (A_update_upstream_with_path upstream_id path upstream_config) s =
     Admin_make_request t ''PATCH'' (''/upstreams/'' @ upstream_id @ ''/'' @ path)
       (Some upstream_config) s"
| "Admin_upstream_api t (A_delete_upstream upstream_id) s =
     Admin_make_request t ''DELETE'' (''/upstreams/'' @ upstream_id) None s"

subsection \<open>SSL API\<close>

datatype ssl_method =
    A_list_ssl
  | A_get_ssl string
  | A_create_ssl dict
  | A_update_ssl string dict
  | A_delete_ssl string

primrec Admin_ssl_api :: "transport \<Rightarrow> ssl_method \<Rightarrow> state \<Rightarrow> (error + json) \<times> state" where
  "Admin_ssl_api t A_list_ssl s = unwrap (Admin_make_request t ''GET'' ''/ssl'' None s)"
| "Admin_ssl_api t (A_get_ssl ssl_id) s = Admin_make_request t ''GET'' (''/ssl/'' @ ssl_id) None s"
| "Admin_ssl_api t (A_create_ssl ssl_config) s =
     Admin_make_request t ''POST'' ''/ssl'' (Some ssl_config) s"
| "Admin_ssl_api t (A_update_ssl ssl_id ssl_config) s =
     Admin_make_request t ''PUT'' (''/ssl/'' @ ssl_id) (Some ssl_config) s"
| "Admin_ssl_api t (A_delete_ssl ssl_id) s =
     Admin_make_request t ''DELETE'' (''/ssl/'' @ ssl_id) None s"

subsection \<open>Global Rules API\<close>

datatype global_rule_method =
    A_list_global_rules
  | A_get_global_rule string
  | A_create_global_rule_with_id string dict
  | A_delete_global_rule string
  | A_update_global_rule string dict
  | A_update_global_rule_with_path string string dict

primrec Admin_global_rule_api :: "transport \<Rightarrow> global_rule_method \<Rightarrow> state \<Rightarrow> (error + json) \<times> state" where
  "Admin_global_rule_api t A_list_global_rules s =
     unwrap (Admin_make_request t ''GET'' ''/global_rules'' None s)"
| "Admin_global_rule_api t (A_get_global_rule rule_id) s =
     Admin_make_request t ''GET'' (''/global_rules/'' @ rule_id) None s"
| "Admin_global_rule_api t (A_create_global_rule_with_id rule_id rule_config) s =
     Admin_make_request t ''PUT'' (''/global_rules/'' @ rule_id) (Some rule_config) s"
| "Admin_global_rule_api t (A_delete_global_rule rule_id) s =
     Admin_make_request t ''DELETE'' (''/global_rules/'' @ rule_id) None s"
| "Admin_global_rule_api t (A_update_global_rule rule_id rule_config) s =
     Admin_make_request t ''PATCH'' (''/global_rules/'' @ rule_id) (Some rule_config) s"
| "Admin_global_rule_api t (A_update_global_rule_with_path rule_id path rule_config) s =
     Admin_make_request t ''PATCH'' (''/global_rules/'' @ rule_id @ ''/'' @ path)
       (Some rule_config) s"

subsection \<open>Consumer Groups API\<close>

datatype consumer_group_method =
    A_list_consumer_groups
  | A_get_consumer_group string
  | A_create_consumer_group_with_id string dict
  | A_delete_consumer_group string
  | A_update_consumer_group string dict
  | A_update_consumer_group_with_path string string dict

primrec Admin_consumer_group_api :: "transport \<Rightarrow> consumer_group_method \<Rightarrow> state \<Rightarrow> (error + json) \<times> state" where
  "Admin_consumer_group_api t A_list_consumer_groups s =
     unwrap (Admin_make_request t ''GET'' ''/consumer_groups'' None s)"
| "Admin_consumer_group_api t (A_get_consumer_group group_id) s =
     Admin_make_request t ''GET'' (''/consumer_groups/'' @ group_id) None s"
| "Admin_consumer_group_api t (A_create_consumer_group_with_id group_id group_config) s =
     Admin_make_request t ''PUT'' (''/consumer_groups/'' @ group_id) (Some group_config) s"
| "Admin_consumer_group_api t (A_delete_consumer_group group_id) s =
     Admin_make_request t ''DELETE'' (''/consumer_groups/'' @ group_id) None s"
| "Admin_consumer_group_api t (A_update_consumer_group group_id group_config) s =
     Admin_make_request t ''PATCH'' (''/consumer_groups/'' @ group_id) (Some group_config) s"
| "Admin_consumer_group_api t (A_update_consumer_group_with_path group_id path group_config) s =
     Admin_make_request t ''PATCH'' (''/consumer_groups/'' @ group_id @ ''/'' @ path)
       (Some group_config) s"

subsection \<open>Plugin Configs API\<close>

datatype plugin_config_method =
    A_list_plugin_configs
  | A_get_plugin_config string
  | A_create_plugin_config_with_id string dict
  | A_delete_plugin_config string
  | A_update_plugin_config string dict
  | A_update_plugin_config_with_path string string dict

primrec Admin_plugin_config_api :: "transport \<Rightarrow> plugin_config_method \<Rightarrow> state \<Rightarrow> (error + json) \<times> state" where
  "Admin_plugin_config_api t A_list_plugin_configs s =
     unwrap (Admin_make_request t ''GET'' ''/plugin_configs'' None s)"
| "Admin_plugin_config_api t (A_get_plugin_config config_id) s =
     Admin_make_request t ''GET'' (''/plugin_configs/'' @ config_id) None s"
| "Admin_plugin_config_api t (A_create_plugin_config_with_id config_id config) s =
     Admin_make_request t ''PUT'' (''/plugin_configs/'' @ config_id) (Some config) s"
| "Admin_plugin_config_api t (A_delete_plugin_config config_id) s =
     Admin_make_request t ''DELETE'' (''/plugin_configs/'' @ config_id) None s"
| "Admin_plugin_config_api t (A_update_plugin_config config_id config) s =
     Admin_make_request t ''PATCH'' (''/plugin_configs/'' @ config_id) (Some config) s"
| "Admin_plugin_config_api t (A_update_plugin_config_with_path config_id path config) s =
     Admin_make_request t ''PATCH'' (''/plugin_configs/'' @ config_id @ ''/'' @ path)
       (Some config) s"

subsection \<open>Plugin Metadata API\<close>

datatype plugin_metadata_method =
    A_get_plugin_metadata string
  | A_create_plugin_metadata string dict
  | A_delete_plugin_metadata string

primrec Admin_plugin_metadata_api :: "transport \<Rightarrow> plugin_metadata_method \<Rightarrow> state \<Rightarrow> (error + json) \<times> state" where
  "Admin_plugin_metadata_api t (A_get_plugin_metadata plugin_name) s =
     Admin_make_request t ''GET'' (''/plugin_metadata/'' @ plugin_name) None s"
| "Admin_plugin_metadata_api t (A_create_plugin_metadata plugin_name metadata) s =
     Admin_make_request t ''PUT'' (''/plugin_metadata/'' @ plugin_name) (Some metadata) s"
| "Admin_plugin_metadata_api t (A_delete_plugin_metadata plugin_name) s =
     Admin_make_request t ''DELETE'' (''/plugin_metadata/'' @ plugin_name) None s"

subsection \<open>Plugins API\<close>

datatype plugin_method =
    A_list_plugins
  | A_get_plugin string
  | A_get_all_plugins_properties
  | A_get_all_stream_plugins_properties
  | A_get_all_http_plugins_properties
  | A_reload_plugins
  | A_get_plugin_properties string "string option"

primrec Admin_plugin_api :: "transport \<Rightarrow> plugin_method \<Rightarrow> state \<Rightarrow> (error + json) \<times> state" where
  "Admin_plugin_api t A_list_plugins s = unwrap (Admin_make_request t ''GET'' ''/plugins/list'' None s)"
| "Admin_plugin_api t (A_get_plugin plugin_name) s =
     Admin_make_request t ''GET'' (''/plugins/'' @ plugin_name) None s"
| "Admin_plugin_api t A_get_all_plugins_properties s =
     Admin_make_request t ''GET'' ''/plugins?all=true'' None s"
| "Admin_plugin_api t A_get_all_stream_plugins_properties s =
     Admin_make_request t ''GET'' ''/plugins?all=true&subsystem=stream'' None s"
| "Admin_plugin_api t A_get_all_http_plugins_properties s =
     Admin_make_request t ''GET'' ''/plugins?all=true&subsystem=http'' None s"
| "Admin_plugin_api t A_reload_plugins s = Admin_make_request t ''PUT'' ''/plugins/reload'' None s"
| "Admin_plugin_api t (A_get_plugin_properties plugin_name subsystem) s =
     (if truthy subsystem then
        Admin_make_request t ''GET''
          (''/plugins/'' @ plugin_name @ ''?subsystem='' @ the subsystem) None s
      else Admin_make_request t ''GET'' (''/plugins/'' @ plugin_name) None s)"

subsection \<open>Stream Routes API\<close>

datatype stream_route_method =
    A_list_stream_routes
  | A_get_stream_route string
  | A_create_stream_route_with_id string dict
  | A_create_stream_route dict
  | A_delete_stream_route string

primrec Admin_stream_route_api :: "transport \<Rightarrow> stream_route_method \<Rightarrow> state \<Rightarrow> (error + json) \<times> state" where
  "Admin_stream_route_api t A_list_stream_routes s =
     unwrap (Admin_make_request t ''GET'' ''/stream_routes'' None s)"
| "Admin_stream_route_api t (A_get_stream_route route_id) s =
     Admin_make_request t ''GET'' (''/stream_routes/'' @ route_id) None s"
| "Admin_stream_route_api t (A_create_stream_route_with_id route_id route_config) s =
     Admin_make_request t ''PUT'' (''/stream_routes/'' @ route_id) (Some route_config) s"
| "Admin_stream_route_api t (A_create_stream_route route_config) s =
     Admin_make_request t ''POST'' ''/stream_routes'' (Some route_config) s"
| "Admin_stream_route_api t (A_delete_stream_route route_id) s =
     Admin_make_request t ''DELETE'' (''/stream_routes/'' @ route_id) None s"

subsection \<open>Secrets API\<close>

datatype secret_method =
    A_list_secrets
  | A_get_secret string string
  | A_create_secret string dict
  | A_delete_secret string string
  | A_update_secret string string dict
  | A_update_secret_with_path string string string dict

primrec Admin_secret_api :: "transport \<Rightarrow> secret_method \<Rightarrow> state \<Rightarrow> (error + json) \<times> state" where
  "Admin_secret_api t A_list_secrets s = unwrap (Admin_make_request t ''GET'' ''/secrets'' None s)"
| "Admin_secret_api t (A_get_secret manager secret_id) s =
     Admin_make_request t ''GET'' (''/secrets/'' @ manager @ ''/'' @ secret_id) None s"
| "Admin_secret_api t (A_create_secret manager secret_config) s =
     Admin_make_request t ''PUT'' (''/secrets/'' @ manager) (Some secret_config) s"
| "Admin_secret_api t (A_delete_secret manager secret_id) s =
     Admin_make_request t ''DELETE'' (''/secrets/'' @ manager @ ''/'' @ secret_id) None s"
| "Admin_secret_api t (A_update_secret manager secret_id secret_config) s =
     Admin_make_request t ''PATCH'' (''/secrets/'' @ manager @ ''/'' @ secret_id)
       (Some secret_config) s"
| "Admin_secret_api t (A_update_secret_with_path manager secret_id path secret_config) s =
     Admin_make_request t ''PATCH'' (''/secrets/'' @ manager @ ''/'' @ secret_id @ ''/'' @ path)
       (Some secret_config) s"

subsection \<open>Protos API\<close>

datatype proto_method =
    A_list_protos
  | A_get_proto string
  | A_create_proto_with_id string dict
  | A_create_proto dict
  | A_delete_proto string

primrec Admin_proto_api :: "transport \<Rightarrow> proto_method \<Rightarrow> state \<Rightarrow> (error + json) \<times> state" where
  "Admin_proto_api t A_list_protos s = unwrap (Admin_make_request t ''GET'' ''/protos'' None s)"
| "Admin_proto_api t (A_get_proto proto_id) s =
     Admin_make_request t ''GET'' (''/protos/'' @ proto_id) None s"
| "Admin_proto_api t (A_create_proto_with_id proto_id proto_config) s =
     Admin_make_request t ''PUT'' (''/protos/'' @ proto_id) (Some proto_config) s"
| "Admin_proto_api t (A_create_proto proto_config) s =
     Admin_make_request t ''POST'' ''/protos'' (Some proto_config) s"
| "Admin_proto_api t (A_delete_proto proto_id) s =
     Admin_make_request t ''DELETE'' (''/protos/'' @ proto_id) None s"

subsection \<open>Schema Validation API\<close>

datatype schema_method =
    A_validate_resource_schema string dict

primrec Admin_schema_api :: "transport \<Rightarrow> schema_method \<Rightarrow> state \<Rightarrow> (error + json) \<times> state" where
  "Admin_schema_api t (A_validate_resource_schema resource config) s =
     Admin_make_request t ''POST'' (''/schema/validate/'' @ resource) (Some config) s"

subsection \<open>Every method of the Admin client\<close>

datatype admin_method =
    Routes route_method
  | Services service_method
  | Consumers consumer_method
  | Credentials credential_method
  | Upstreams upstream_method
  | Ssl ssl_method
  | Global_rules global_rule_method
  | Consumer_groups consumer_group_method
  | Plugin_configs plugin_config_method
  | Plugin_metadata plugin_metadata_method
  | Plugins plugin_method
  | Stream_routes stream_route_method
  | Secrets secret_method
  | Protos proto_method
  | Schema_validation schema_method

primrec Admin_call :: "transport \<Rightarrow> admin_method \<Rightarrow> state \<Rightarrow> (error + json) \<times> state" where
  "Admin_call t (Routes m) s = Admin_route_api t m s"
| "Admin_call t (Services m) s = Admin_service_api t m s"
| "Admin_call t (Consumers m) s = Admin_consumer_api t m s"
| "Admin_call t (Credentials m) s = Admin_credential_api t m s"
| "Admin_call t (Upstreams m) s = Admin_upstream_api t m s"
| "Admin_call t (Ssl m) s = Admin_ssl_api t m s"
| "Admin_call t (Global_rules m) s = Admin_global_rule_api t m s"
| "Admin_call t (Consumer_groups m) s = Admin_consumer_group_api t m s"
| "Admin_call t (Plugin_configs m) s = Admin_plugin_config_api t m s"
| "Admin_call t (Plugin_metadata m) s = Admin_plugin_metadata_api t m s"
| "Admin_call t (Plugins m) s = Admin_plugin_api t m s"
| "Admin_call t (Stream_routes m) s = Admin_stream_route_api t m s"
| "Admin_call t (Secrets m) s = Admin_secret_api t m s"
| "Admin_call t (Protos m) s = Admin_proto_api t m s"
| "Admin_call t (Schema_validation m) s = Admin_schema_api t m s"

section \<open>The public methods of the Control client\<close>

datatype control_method =
    C_get_schema
  | C_healthcheck
  | C_trigger_gc
  | C_list_routes
  | C_get_route string
  | C_list_services
  | C_get_service string
  | C_list_upstreams
  | C_get_upstream string
  | C_list_plugin_metadatas
  | C_get_plugin_metadata string
  | C_reload_plugins
  | C_get_discovery_dump string
  | C_show_discovery_dump_file string

primrec Control_call :: "transport \<Rightarrow> control_method \<Rightarrow> state \<Rightarrow> (error + json) \<times> state" where
  "Control_call t C_get_schema s = Control_make_request t ''GET'' ''/schema'' None s"
| "Control_call t C_healthcheck s = Control_make_request t ''GET'' ''/healthcheck'' None s"
| "Control_call t C_trigger_gc s = Control_make_request t ''POST'' ''/gc'' None s"
| "Control_call t C_list_routes s = unwrap (Control_make_request t ''GET'' ''/routes'' None s)"
| "Control_call t (C_get_route route_id) s =
     Control_make_request t ''GET'' (''/route/'' @ route_id) None s"
| "Control_call t C_list_services s =
     unwrap (Control_make_request t ''GET'' ''/services'' None s)"
| "Control_call t (C_get_service service_id) s =
     Control_make_request t ''GET'' (''/service/'' @ service_id) None s"
| "Control_call t C_list_upstreams s =
     unwrap (Control_make_request t ''GET'' ''/upstreams'' None s)"
| "Control_call t (C_get_upstream upstream_id) s =
     Control_make_request t ''GET'' (''/upstream/'' @ upstream_id) None s"
| "Control_call t C_list_plugin_metadatas s =
     unwrap (Control_make_request t ''GET'' ''/plugin_metadatas'' None s)"
| "Control_call t (C_get_plugin_metadata plugin_name) s =
     Control_make_request t ''GET'' (''/plugin_metadata/'' @ plugin_name) None s"
| "Control_call t C_reload_plugins s = Control_make_request t ''PUT'' ''/plugins/reload'' None s"
| "Control_call t (C_get_discovery_dump service) s =
     Control_make_request t ''GET'' (''/discovery/'' @ service @ ''/dump'') None s"
| "Control_call t (C_show_discovery_dump_file service) s =
     Control_make_request t ''GET'' (''/discovery/'' @ service @ ''/show_dump_file'') None s"

section \<open>The list methods\<close>

text \<open>
  The methods of the two clients that apply \<open>.get('node', {}).get('nodes', [])\<close> to the
  response. \<open>list_consumer_credentials\<close> of the Admin client is not among them: it
  returns what \<open>_make_request\<close> returned.
\<close>

definition admin_list_methods :: "admin_method list" where
  "admin_list_methods =
     [Routes A_list_routes, Services A_list_services, Consumers A_list_consumers,
      Upstreams A_list_upstreams, Ssl A_list_ssl, Global_rules A_list_global_rules,
      Consumer_groups A_list_consumer_groups, Plugin_configs A_list_plugin_configs,
      Plugins A_list_plugins, Stream_routes A_list_stream_routes, Secrets A_list_secrets,
      Protos A_list_protos]"

definition control_list_methods :: "control_method list" where
  "control_list_methods =
     [C_list_routes, C_list_services, C_list_upstreams, C_list_plugin_metadatas]"

section \<open>Properties of URLs\<close>

text \<open>A URL has a double slash when two adjacent characters are both slashes.\<close>

fun has_double_slash :: "string \<Rightarrow> bool" where
  "has_double_slash (a # b # cs) = ((a = CHR ''/'' \<and> b = CHR ''/'') \<or> has_double_slash (b # cs))"
| "has_double_slash cs = False"

text \<open>A URL has a query string when it has a question mark.\<close>

definition has_query :: "string \<Rightarrow> bool" where
  "has_query u = (CHR ''?'' \<in> set u)"

text \<open>The requests a call added to the ones issued before it, and the URL of the last one.\<close>

definition issued :: "state \<Rightarrow> (error + json) \<times> state \<Rightarrow> http_request list" where
  "issued s rs = drop (length (sent s)) (sent (snd rs))"

definition issued_url :: "(error + json) \<times> state \<Rightarrow> string" where
  "issued_url rs = (case sent (snd rs) of [] \<Rightarrow> [] | rq # rqs \<Rightarrow> req_url (last (rq # rqs)))"

section \<open>Example clients and servers\<close>

text \<open>
  Two clients as their constructors build them, and the servers of the examples: one
  that answers every request with a list envelope, one that knows no resource, one
  that cannot be reached, one that answers with a status of the 3xx class, and two
  whose answers have no list envelope.
\<close>

definition admin0 :: state where
  "admin0 = \<lparr>self = Admin_init ''http://localhost:9180/apisix/admin/'' ''key'', sent = []\<rparr>"

definition control0 :: state where
  "control0 = \<lparr>self = Control_init ''http://localhost:9090/v1/'' ''key'', sent = []\<rparr>"

definition two_nodes :: json where
  "two_nodes = JArr [JObj [(''id'', JStr ''1'')], JObj [(''id'', JStr ''2'')]]"

definition nodes_server :: transport where
  \<open>nodes_server rq =
     Response \<lparr>status_code = 200, reason = ''OK'', resp_url = req_url rq,
       content = ''{"node":{"nodes":[{"id":"1"},{"id":"2"}]}}'',
       json_result = Json_value (JObj [(''node'', JObj [(''nodes'', two_nodes)])])\<rparr>\<close>

definition not_found_server :: transport where
  \<open>not_found_server rq =
     Response \<lparr>status_code = 404, reason = ''Not Found'', resp_url = req_url rq,
       content = ''{"error_msg":"not found"}'',
       json_result = Json_value (JObj [(''error_msg'', JStr ''not found'')])\<rparr>\<close>

definition unreachable :: transport where
  "unreachable rq = Request_exception ''Connection refused''"

definition multiple_choices_server :: transport where
  \<open>multiple_choices_server rq =
     Response \<lparr>status_code = 300, reason = ''Multiple Choices'', resp_url = req_url rq,
       content = ''{"choices":[]}'',
       json_result = Json_value (JObj [(''choices'', JArr [])])\<rparr>\<close>

definition empty_object_server :: transport where
  "empty_object_server rq =
     Response \<lparr>status_code = 200, reason = ''OK'', resp_url = req_url rq,
       content = ''{}'', json_result = Json_value (JObj [])\<rparr>"

definition null_node_server :: transport where
  \<open>null_node_server rq =
     Response \<lparr>status_code = 200, reason = ''OK'', resp_url = req_url rq,
       content = ''{"node":null}'', json_result = Json_value (JObj [(''node'', JNull)])\<rparr>\<close>

section \<open>Basic facts about the dispatcher\<close>

lemma upper_verbs:
  "upper ''GET'' = ''GET''" "upper ''POST'' = ''POST''" "upper ''PUT'' = ''PUT''"
  "upper ''DELETE'' = ''DELETE''" "upper ''PATCH'' = ''PATCH''"
  by (simp_all add: upper_def upper_char_def)

lemma Admin_verb:
  "Admin_make_request t ''GET'' e d s =
     issue t \<lparr>req_verb = GET, req_url = base_url (self s) @ ''/'' @ lstrip_slash e,
              req_headers = headers (self s), req_json = None\<rparr> s"
  "Admin_make_request t ''POST'' e d s =
     issue t \<lparr>req_verb = POST, req_url = base_url (self s) @ ''/'' @ lstrip_slash e,
              req_headers = headers (self s), req_json = d\<rparr> s"
  "Admin_make_request t ''PUT'' e d s =
     issue t \<lparr>req_verb = PUT, req_url = base_url (self s) @ ''/'' @ lstrip_slash e,
              req_headers = headers (self s), req_json = d\<rparr> s"
  "Admin_make_request t ''DELETE'' e d s =
     issue t \<lparr>req_verb = DELETE, req_url = base_url (self s) @ ''/'' @ lstrip_slash e,
              req_headers = headers (self s), req_json = None\<rparr> s"
  "Admin_make_request t ''PATCH'' e d s =
     issue t \<lparr>req_verb = PATCH, req_url = base_url (self s) @ ''/'' @ lstrip_slash e,
              req_headers = headers (self s), req_json = d\<rparr> s"
  by (simp_all add: Admin_make_request_def upper_verbs)

lemma Control_verb:
  "Control_make_request t ''GET'' e d s =
     issue t \<lparr>req_verb = GET, req_url = base_url (self s) @ ''/'' @ lstrip_slash e,
              req_headers = headers (self s), req_json = None\<rparr> s"
  "Control_make_request t ''POST'' e d s =
     issue t \<lparr>req_verb = POST, req_url = base_url (self s) @ ''/'' @ lstrip_slash e,
              req_headers = headers (self s), req_json = d\<rparr> s"
  "Control_make_request t ''PUT'' e d s =
     issue t \<lparr>req_verb = PUT, req_url = base_url (self s) @ ''/'' @ lstrip_slash e,
              req_headers = headers (self s), req_json = d\<rparr> s"
  "Control_make_request t ''DELETE'' e d s = (Inl (ValueError ''Unsupported HTTP method: DELETE''), s)"
  "Control_make_request t ''PATCH'' e d s = (Inl (ValueError ''Unsupported HTTP method: PATCH''), s)"
  by (simp_all add: Control_make_request_def upper_verbs)

lemma Admin_make_request_self: "self (snd (Admin_make_request t m e d s)) = self s"
  by (simp add: Admin_make_request_def issue_def Let_def)

lemma Control_make_request_self: "self (snd (Control_make_request t m e d s)) = self s"
  by (simp add: Control_make_request_def issue_def Let_def)

lemma unwrap_snd: "snd (unwrap rs) = snd rs"
  by (simp add: unwrap_def split: sum.split)

section \<open>Verbs outside the dispatch chain\<close>

text \<open>
  C6: for every verb string outside the set a client's dispatcher supports (compared
  after \<open>upper\<close>), \<open>_make_request\<close> fails with the \<open>ValueError\<close> for an unsupported
  method, and the state it leaves is the state it started in: no request has been
  issued. The Admin dispatcher supports GET, POST, PUT, DELETE and PATCH, the Control
  dispatcher GET, POST and PUT.
\<close>

theorem unsupported_verb_fails_before_io:
  "(upper method \<notin> {''GET'', ''POST'', ''PUT'', ''DELETE'', ''PATCH''} \<longrightarrow>
      Admin_make_request t method endpoint data s =
        (Inl (ValueError (''Unsupported HTTP method: '' @ method)), s)) \<and>
   (upper method \<notin> {''GET'', ''POST'', ''PUT''} \<longrightarrow>
      Control_make_request t method endpoint data s =
        (Inl (ValueError (''Unsupported HTTP method: '' @ method)), s))"
  by (simp add: Admin_make_request_def Control_make_request_def)

theorem unsupported_verb_fails_before_io_witness:
  "upper ''trace'' \<notin> {''GET'', ''POST'', ''PUT'', ''DELETE'', ''PATCH''} \<and>
   upper ''trace'' \<notin> {''GET'', ''POST'', ''PUT''} \<and>
   Admin_make_request nodes_server ''trace'' ''/routes'' None admin0 =
     (Inl (ValueError ''Unsupported HTTP method: trace''), admin0) \<and>
   Control_make_request nodes_server ''trace'' ''/routes'' None control0 =
     (Inl (ValueError ''Unsupported HTTP method: trace''), control0)"
  using unsupported_verb_fails_before_io [of "''trace''" nodes_server "''/routes''" None admin0]
    unsupported_verb_fails_before_io [of "''trace''" nodes_server "''/routes''" None control0]
  by (simp add: upper_def upper_char_def)

section \<open>The client configuration\<close>

lemma Admin_api_self:
  "self (snd (Admin_route_api t m1 s)) = self s"
  "self (snd (Admin_service_api t m2 s)) = self s"
  "self (snd (Admin_consumer_api t m3 s)) = self s"
  "self (snd (Admin_credential_api t m4 s)) = self s"
  "self (snd (Admin_upstream_api t m5 s)) = self s"
  "self (snd (Admin_ssl_api t m6 s)) = self s"
  "self (snd (Admin_global_rule_api t m7 s)) = self s"
  "self (snd (Admin_consumer_group_api t m8 s)) = self s"
  "self (snd (Admin_plugin_config_api t m9 s)) = self s"
  "self (snd (Admin_plugin_metadata_api t m10 s)) = self s"
  "self (snd (Admin_plugin_api t m11 s)) = self s"
  "self (snd (Admin_stream_route_api t m12 s)) = self s"
  "self (snd (Admin_secret_api t m13 s)) = self s"
  "self (snd (Admin_proto_api t m14 s)) = self s"
  "self (snd (Admin_schema_api t m15 s)) = self s"
  subgoal by (cases m1) (simp_all add: Admin_make_request_self unwrap_snd split: option.split)
  subgoal by (cases m2) (simp_all add: Admin_make_request_self unwrap_snd split: option.split)
  subgoal by (cases m3) (simp_all add: Admin_make_request_self unwrap_snd split: option.split)
  subgoal by (cases m4) (simp_all add: Admin_make_request_self unwrap_snd split: option.split)
  subgoal by (cases m5) (simp_all add: Admin_make_request_self unwrap_snd split: option.split)
  subgoal by (cases m6) (simp_all add: Admin_make_request_self unwrap_snd split: option.split)
  subgoal by (cases m7) (simp_all add: Admin_make_request_self unwrap_snd split: option.split)
  subgoal by (cases m8) (simp_all add: Admin_make_request_self unwrap_snd split: option.split)
  subgoal by (cases m9) (simp_all add: Admin_make_request_self unwrap_snd split: option.split)
  subgoal by (cases m10) (simp_all add: Admin_make_request_self unwrap_snd split: option.split)
  subgoal by (cases m11) (simp_all add: Admin_make_request_self unwrap_snd split: option.split)
  subgoal by (cases m12) (simp_all add: Admin_make_request_self unwrap_snd split: option.split)
  subgoal by (cases m13) (simp_all add: Admin_make_request_self unwrap_snd split: option.split)
  subgoal by (cases m14) (simp_all add: Admin_make_request_self unwrap_snd split: option.split)
  subgoal by (cases m15) (simp_all add: Admin_make_request_self unwrap_snd split: option.split)
  done

lemma Admin_call_self: "self (snd (Admin_call t m s)) = self s"
  by (cases m) (simp_all add: Admin_api_self)

lemma Control_call_self: "self (snd (Control_call t m s)) = self s"
  by (cases m) (simp_all add: Control_make_request_self unwrap_snd)

lemma Admin_init_fields:
  "base_url (Admin_init b k) = rstrip_slash b" "api_key (Admin_init b k) = k"
  "headers (Admin_init b k) = [(''Content-Type'', ''application/json''), (''X-API-KEY'', k)]"
  by (simp_all add: Admin_init_def)

lemma Control_init_fields:
  "base_url (Control_init b k) = rstrip_slash b" "api_key (Control_init b k) = k"
  "headers (Control_init b k) = [(''Content-Type'', ''application/json''), (''X-API-KEY'', k)]"
  by (simp_all add: Control_init_def)

text \<open>
  C9: the client object (base URL, API key, header map) after a call equals the client
  object before it, for every public method of either client and for the dispatcher
  itself, whatever the outcome of the call (a value or any error). The header map is
  handed to the transport library by reference; the library is taken not to write to it.
\<close>

theorem configuration_unchanged:
  "self (snd (Admin_call t m s)) = self s \<and>
   self (snd (Control_call t c s)) = self s \<and>
   self (snd (Admin_make_request t method endpoint data s)) = self s \<and>
   self (snd (Control_make_request t method endpoint data s)) = self s"
  by (simp add: Admin_call_self Control_call_self Admin_make_request_self
      Control_make_request_self)

section \<open>The request body\<close>

text \<open>
  C10: with the verb GET or DELETE (compared after \<open>upper\<close>) the \<open>data\<close> argument is
  ignored. The result and the final state are those of the call with \<open>data = None\<close>;
  the Admin dispatcher issues exactly one request, which has no body; the Control
  dispatcher, which has no DELETE branch, issues no request with a body either.
\<close>

theorem data_ignored_for_get_and_delete:
  "upper method \<in> {''GET'', ''DELETE''} \<Longrightarrow>
     Admin_make_request t method endpoint data s = Admin_make_request t method endpoint None s \<and>
     (\<exists>rq. issued s (Admin_make_request t method endpoint data s) = [rq] \<and> req_json rq = None) \<and>
     Control_make_request t method endpoint data s = Control_make_request t method endpoint None s \<and>
     list_all (\<lambda>rq. req_json rq = None) (issued s (Control_make_request t method endpoint data s))"
  by (auto simp add: Admin_make_request_def Control_make_request_def issue_def issued_def Let_def)

theorem data_ignored_for_get_and_delete_witness:
  "upper ''delete'' \<in> {''GET'', ''DELETE''} \<and>
   Admin_make_request nodes_server ''delete'' ''/routes/1'' (Some [(''uri'', JStr ''/foo'')]) admin0 =
     Admin_make_request nodes_server ''delete'' ''/routes/1'' None admin0 \<and>
   issued admin0 (Admin_make_request nodes_server ''delete'' ''/routes/1'' (Some [(''uri'', JStr ''/foo'')]) admin0) =
     [\<lparr>req_verb = DELETE, req_url = ''http://localhost:9180/apisix/admin/routes/1'',
       req_headers = [(''Content-Type'', ''application/json''), (''X-API-KEY'', ''key'')],
       req_json = None\<rparr>]"
  using data_ignored_for_get_and_delete
    [of "''delete''" nodes_server "''/routes/1''" "Some [(''uri'', JStr ''/foo'')]" admin0]
  by (simp add: upper_def upper_char_def Admin_make_request_def issue_def issued_def admin0_def
      Admin_init_def rstrip_slash_def lstrip_slash_def Let_def)

section \<open>The verbs of the two dispatchers\<close>

text \<open>
  C7 as stated fails: the Control dispatcher has no branch for DELETE and none for
  PATCH. It answers both with the \<open>ValueError\<close> for an unsupported method and issues
  no request.
\<close>

theorem both_clients_accept_all_verbs_counterexample:
  "Control_make_request nodes_server ''DELETE'' ''/routes/1'' None control0 =
     (Inl (ValueError ''Unsupported HTTP method: DELETE''), control0) \<and>
   Control_make_request nodes_server ''PATCH'' ''/routes/1'' (Some []) control0 =
     (Inl (ValueError ''Unsupported HTTP method: PATCH''), control0) \<and>
   issued control0 (Control_make_request nodes_server ''DELETE'' ''/routes/1'' None control0) = []"
  by (simp add: Control_verb issued_def)

text \<open>
  C7, amended: the Admin dispatcher accepts GET, POST, PUT, PATCH and DELETE, each with
  exactly one request of that verb; the Control dispatcher accepts GET, POST and PUT
  in the same way, and rejects PATCH and DELETE with a \<open>ValueError\<close> before any
  request.
\<close>

theorem verbs_accepted_by_each_client:
  "issued s (Admin_make_request t ''GET'' e d s) =
     [\<lparr>req_verb = GET, req_url = base_url (self s) @ ''/'' @ lstrip_slash e,
       req_headers = headers (self s), req_json = None\<rparr>] \<and>
   issued s (Admin_make_request t ''POST'' e d s) =
     [\<lparr>req_verb = POST, req_url = base_url (self s) @ ''/'' @ lstrip_slash e,
       req_headers = headers (self s), req_json = d\<rparr>] \<and>
   issued s (Admin_make_request t ''PUT'' e d s) =
     [\<lparr>req_verb = PUT, req_url = base_url (self s) @ ''/'' @ lstrip_slash e,
       req_headers = headers (self s), req_json = d\<rparr>] \<and>
   issued s (Admin_make_request t ''PATCH'' e d s) =
     [\<lparr>req_verb = PATCH, req_url = base_url (self s) @ ''/'' @ lstrip_slash e,
       req_headers = headers (self s), req_json = d\<rparr>] \<and>
   issued s (Admin_make_request t ''DELETE'' e d s) =
     [\<lparr>req_verb = DELETE, req_url = base_url (self s) @ ''/'' @ lstrip_slash e,
       req_headers = headers (self s), req_json = None\<rparr>] \<and>
   issued s (Control_make_request t ''GET'' e d s) =
     [\<lparr>req_verb = GET, req_url = base_url (self s) @ ''/'' @ lstrip_slash e,
       req_headers = headers (self s), req_json = None\<rparr>] \<and>
   issued s (Control_make_request t ''POST'' e d s) =
     [\<lparr>req_verb = POST, req_url = base_url (self s) @ ''/'' @ lstrip_slash e,
       req_headers = headers (self s), req_json = d\<rparr>] \<and>
   issued s (Control_make_request t ''PUT'' e d s) =
     [\<lparr>req_verb = PUT, req_url = base_url (self s) @ ''/'' @ lstrip_slash e,
       req_headers = headers (self s), req_json = d\<rparr>] \<and>
   Control_make_request t ''PATCH'' e d s =
     (Inl (ValueError ''Unsupported HTTP method: PATCH''), s) \<and>
   Control_make_request t ''DELETE'' e d s =
     (Inl (ValueError ''Unsupported HTTP method: DELETE''), s)"
  by (simp add: Admin_verb Control_verb issued_def issue_def)

section \<open>Responses with an error status\<close>

lemma issue_fst: "fst (issue t rq s) = settle (t rq)"
  by (simp add: issue_def)

lemma issued_issue: "issued s (issue t rq s) = [rq]"
  by (simp add: issue_def issued_def)

lemma settle_response:
  "settle (Response r) =
     (if 400 \<le> status_code r \<and> status_code r < 500 then
        Inl (ConnectionError (''Error connecting to APISIX: '' @ str_int (status_code r)
               @ '' Client Error: '' @ reason r @ '' for url: '' @ resp_url r))
      else if 500 \<le> status_code r \<and> status_code r < 600 then
        Inl (ConnectionError (''Error connecting to APISIX: '' @ str_int (status_code r)
               @ '' Server Error: '' @ reason r @ '' for url: '' @ resp_url r))
      else (case json_result r of
              Json_value v \<Rightarrow> Inr v
            | Json_request_exception msg \<Rightarrow> Inl (ConnectionError (''Error connecting to APISIX: '' @ msg))
            | Json_other_exception msg \<Rightarrow> Inl (JSONDecodeError msg)))"
  by (simp add: settle_def raise_for_status_def conn_error_def split: json_outcome.split)

lemma settle_exception:
  "settle (Request_exception msg) = Inl (ConnectionError (''Error connecting to APISIX: '' @ msg))"
  by (simp add: settle_def conn_error_def)

lemma Admin_supported:
  assumes "upper method \<in> {''GET'', ''POST'', ''PUT'', ''DELETE'', ''PATCH''}"
  shows "\<exists>rq. Admin_make_request t method endpoint data s = issue t rq s \<and>
           req_url rq = base_url (self s) @ ''/'' @ lstrip_slash endpoint"
  using assms by (auto simp add: Admin_make_request_def Let_def)

lemma Control_supported:
  assumes "upper method \<in> {''GET'', ''POST'', ''PUT''}"
  shows "\<exists>rq. Control_make_request t method endpoint data s = issue t rq s \<and>
           req_url rq = base_url (self s) @ ''/'' @ lstrip_slash endpoint"
  using assms by (auto simp add: Control_make_request_def Let_def)

lemma str_int_404: "str_int 404 = ''404''"
  by (simp add: str_int_def str_nat.simps)

text \<open>
  C1 as stated fails. A response with status 404 makes \<open>raise_for_status\<close> raise an
  \<open>HTTPError\<close>, which is a \<open>RequestException\<close>: the \<open>except\<close> clause turns it
  into the \<open>ConnectionError\<close> it raises for every transport failure, and the message
  of that error has the status, the reason and the URL, not the body. A response with
  status 300 is not an error for \<open>raise_for_status\<close>: its parsed body is returned.
\<close>

theorem non_2xx_is_http_status_error_counterexample:
  "fst (Admin_make_request not_found_server ''GET'' ''/routes/1'' None admin0) =
     Inl (ConnectionError ''Error connecting to APISIX: 404 Client Error: Not Found for url: http://localhost:9180/apisix/admin/routes/1'') \<and>
   fst (Control_make_request not_found_server ''GET'' ''/route/1'' None control0) =
     Inl (ConnectionError ''Error connecting to APISIX: 404 Client Error: Not Found for url: http://localhost:9090/v1/route/1'') \<and>
   fst (Admin_make_request multiple_choices_server ''GET'' ''/routes/1'' None admin0) =
     Inr (JObj [(''choices'', JArr [])])"
  by (simp add: Admin_verb Control_verb issue_fst settle_response not_found_server_def
      multiple_choices_server_def str_int_404 admin0_def control0_def Admin_init_def
      Control_init_def rstrip_slash_def lstrip_slash_def)

text \<open>
  C1, amended: for a verb the dispatcher supports, exactly one request is issued, and
  when the answer to it is a response with a status from 400 to 599 the call fails
  with a \<open>ConnectionError\<close> whose message is the fixed prefix followed by the
  library's text for the status (status code, \<open>Client Error\<close> below 500 and
  \<open>Server Error\<close> from 500 on, reason and URL). With any other status, those of the
  1xx and 3xx classes included, a body that parses is returned as the result.
\<close>

theorem error_status_raises_connection_error:
  "(upper method \<in> {''GET'', ''POST'', ''PUT'', ''DELETE'', ''PATCH''} \<longrightarrow>
     (\<exists>rq. issued s (Admin_make_request t method endpoint data s) = [rq] \<and>
        (\<forall>r. t rq = Response r \<and> 400 \<le> status_code r \<and> status_code r < 600 \<longrightarrow>
           fst (Admin_make_request t method endpoint data s) =
             Inl (ConnectionError (''Error connecting to APISIX: '' @ str_int (status_code r)
                    @ (if status_code r < 500 then '' Client Error: '' else '' Server Error: '')
                    @ reason r @ '' for url: '' @ resp_url r))) \<and>
        (\<forall>r v. t rq = Response r \<and> \<not> (400 \<le> status_code r \<and> status_code r < 600) \<and>
             json_result r = Json_value v \<longrightarrow>
           fst (Admin_make_request t method endpoint data s) = Inr v))) \<and>
   (upper method \<in> {''GET'', ''POST'', ''PUT''} \<longrightarrow>
     (\<exists>rq. issued s (Control_make_request t method endpoint data s) = [rq] \<and>
        (\<forall>r. t rq = Response r \<and> 400 \<le> status_code r \<and> status_code r < 600 \<longrightarrow>
           fst (Control_make_request t method endpoint data s) =
             Inl (ConnectionError (''Error connecting to APISIX: '' @ str_int (status_code r)
                    @ (if status_code r < 500 then '' Client Error: '' else '' Server Error: '')
                    @ reason r @ '' for url: '' @ resp_url r))) \<and>
        (\<forall>r v. t rq = Response r \<and> \<not> (400 \<le> status_code r \<and> status_code r < 600) \<and>
             json_result r = Json_value v \<longrightarrow>
           fst (Control_make_request t method endpoint data s) = Inr v)))"
proof (intro conjI impI)
  assume "upper method \<in> {''GET'', ''POST'', ''PUT'', ''DELETE'', ''PATCH''}"
  then obtain rq where "Admin_make_request t method endpoint data s = issue t rq s"
    using Admin_supported by blast
  then show "\<exists>rq. issued s (Admin_make_request t method endpoint data s) = [rq] \<and>
        (\<forall>r. t rq = Response r \<and> 400 \<le> status_code r \<and> status_code r < 600 \<longrightarrow>
           fst (Admin_make_request t method endpoint data s) =
             Inl (ConnectionError (''Error connecting to APISIX: '' @ str_int (status_code r)
                    @ (if status_code r < 500 then '' Client Error: '' else '' Server Error: '')
                    @ reason r @ '' for url: '' @ resp_url r))) \<and>
        (\<forall>r v. t rq = Response r \<and> \<not> (400 \<le> status_code r \<and> status_code r < 600) \<and>
             json_result r = Json_value v \<longrightarrow>
           fst (Admin_make_request t method endpoint data s) = Inr v)"
    by (intro exI [of _ rq]) (auto simp add: issued_issue issue_fst settle_response)
next
  assume "upper method \<in> {''GET'', ''POST'', ''PUT''}"
  then obtain rq where "Control_make_request t method endpoint data s = issue t rq s"
    using Control_supported by blast
  then show "\<exists>rq. issued s (Control_make_request t method endpoint data s) = [rq] \<and>
        (\<forall>r. t rq = Response r \<and> 400 \<le> status_code r \<and> status_code r < 600 \<longrightarrow>
           fst (Control_make_request t method endpoint data s) =
             Inl (ConnectionError (''Error connecting to APISIX: '' @ str_int (status_code r)
                    @ (if status_code r < 500 then '' Client Error: '' else '' Server Error: '')
                    @ reason r @ '' for url: '' @ resp_url r))) \<and>
        (\<forall>r v. t rq = Response r \<and> \<not> (400 \<le> status_code r \<and> status_code r < 600) \<and>
             json_result r = Json_value v \<longrightarrow>
           fst (Control_make_request t method endpoint data s) = Inr v)"
    by (intro exI [of _ rq]) (auto simp add: issued_issue issue_fst settle_response)
qed

theorem error_status_raises_connection_error_witness:
  "upper ''get'' \<in> {''GET'', ''POST'', ''PUT'', ''DELETE'', ''PATCH''} \<and>
   upper ''get'' \<in> {''GET'', ''POST'', ''PUT''} \<and>
   fst (Admin_make_request not_found_server ''get'' ''/routes/1'' None admin0) =
     Inl (ConnectionError ''Error connecting to APISIX: 404 Client Error: Not Found for url: http://localhost:9180/apisix/admin/routes/1'') \<and>
   fst (Control_make_request not_found_server ''get'' ''/route/1'' None control0) =
     Inl (ConnectionError ''Error connecting to APISIX: 404 Client Error: Not Found for url: http://localhost:9090/v1/route/1'')"
proof -
  have u: "upper ''get'' = ''GET''"
    by (simp add: upper_def upper_char_def)
  have a: "issued admin0 (Admin_make_request not_found_server ''get'' ''/routes/1'' None admin0) =
      [\<lparr>req_verb = GET, req_url = ''http://localhost:9180/apisix/admin/routes/1'',
        req_headers = [(''Content-Type'', ''application/json''), (''X-API-KEY'', ''key'')],
        req_json = None\<rparr>]"
    by (simp add: Admin_make_request_def u issued_issue admin0_def Admin_init_def
        rstrip_slash_def lstrip_slash_def)
  have c: "issued control0 (Control_make_request not_found_server ''get'' ''/route/1'' None control0) =
      [\<lparr>req_verb = GET, req_url = ''http://localhost:9090/v1/route/1'',
        req_headers = [(''Content-Type'', ''application/json''), (''X-API-KEY'', ''key'')],
        req_json = None\<rparr>]"
    by (simp add: Control_make_request_def u issued_issue control0_def Control_init_def
        rstrip_slash_def lstrip_slash_def)
  show ?thesis
    using error_status_raises_connection_error
      [of "''get''" admin0 not_found_server "''/routes/1''" None]
      error_status_raises_connection_error
      [of "''get''" control0 not_found_server "''/route/1''" None]
    by (simp add: u a c not_found_server_def str_int_404)
qed

section \<open>Transport failures\<close>

text \<open>
  C4 as stated fails in one part: the error carries neither the URL nor the verb. Its
  only content is the fixed prefix and the text of the transport exception, so that a
  GET of \<open>/routes\<close>, a PUT of \<open>/upstreams/7\<close> and a POST of \<open>/gc\<close> that fail in
  the same way fail with the same error.
\<close>

theorem transport_failure_carries_url_and_verb_counterexample:
  "fst (Admin_make_request unreachable ''GET'' ''/routes'' None admin0) =
     Inl (ConnectionError ''Error connecting to APISIX: Connection refused'') \<and>
   fst (Admin_make_request unreachable ''PUT'' ''/upstreams/7'' (Some []) admin0) =
     Inl (ConnectionError ''Error connecting to APISIX: Connection refused'') \<and>
   fst (Control_make_request unreachable ''POST'' ''/gc'' None control0) =
     Inl (ConnectionError ''Error connecting to APISIX: Connection refused'')"
  by (simp add: Admin_verb Control_verb issue_fst settle_exception unreachable_def)

text \<open>
  C4, amended: for a verb the dispatcher supports, exactly one request is issued, and
  when the transport library answers it by raising a \<open>RequestException\<close> the call
  fails with a \<open>ConnectionError\<close> whose message is \<open>Error connecting to APISIX: \<close>
  followed by the text of that exception. The exception of the library does not leave
  the method; nothing is added to its text.
\<close>

theorem transport_failure_raises_connection_error:
  "(upper method \<in> {''GET'', ''POST'', ''PUT'', ''DELETE'', ''PATCH''} \<longrightarrow>
     (\<exists>rq. issued s (Admin_make_request t method endpoint data s) = [rq] \<and>
        (\<forall>msg. t rq = Request_exception msg \<longrightarrow>
           fst (Admin_make_request t method endpoint data s) =
             Inl (ConnectionError (''Error connecting to APISIX: '' @ msg))))) \<and>
   (upper method \<in> {''GET'', ''POST'', ''PUT''} \<longrightarrow>
     (\<exists>rq. issued s (Control_make_request t method endpoint data s) = [rq] \<and>
        (\<forall>msg. t rq = Request_exception msg \<longrightarrow>
           fst (Control_make_request t method endpoint data s) =
             Inl (ConnectionError (''Error connecting to APISIX: '' @ msg)))))"
proof (intro conjI impI)
  assume "upper method \<in> {''GET'', ''POST'', ''PUT'', ''DELETE'', ''PATCH''}"
  then obtain rq where "Admin_make_request t method endpoint data s = issue t rq s"
    using Admin_supported by blast
  then show "\<exists>rq. issued s (Admin_make_request t method endpoint data s) = [rq] \<and>
        (\<forall>msg. t rq = Request_exception msg \<longrightarrow>
           fst (Admin_make_request t method endpoint data s) =
             Inl (ConnectionError (''Error connecting to APISIX: '' @ msg)))"
    by (intro exI [of _ rq]) (simp add: issued_issue issue_fst settle_exception)
next
  assume "upper method \<in> {''GET'', ''POST'', ''PUT''}"
  then obtain rq where "Control_make_request t method endpoint data s = issue t rq s"
    using Control_supported by blast
  then show "\<exists>rq. issued s (Control_make_request t method endpoint data s) = [rq] \<and>
        (\<forall>msg. t rq = Request_exception msg \<longrightarrow>
           fst (Control_make_request t method endpoint data s) =
             Inl (ConnectionError (''Error connecting to APISIX: '' @ msg)))"
    by (intro exI [of _ rq]) (simp add: issued_issue issue_fst settle_exception)
qed

theorem transport_failure_raises_connection_error_witness:
  "upper ''Post'' \<in> {''GET'', ''POST'', ''PUT'', ''DELETE'', ''PATCH''} \<and>
   upper ''Post'' \<in> {''GET'', ''POST'', ''PUT''} \<and>
   fst (Admin_make_request unreachable ''Post'' ''/routes'' (Some []) admin0) =
     Inl (ConnectionError ''Error connecting to APISIX: Connection refused'') \<and>
   fst (Control_make_request unreachable ''Post'' ''/gc'' None control0) =
     Inl (ConnectionError ''Error connecting to APISIX: Connection refused'')"
proof -
  have u: "upper ''Post'' = ''POST''"
    by (simp add: upper_def upper_char_def)
  show ?thesis
    using transport_failure_raises_connection_error
      [of "''Post''" admin0 unreachable "''/routes''" "Some []"]
      transport_failure_raises_connection_error
      [of "''Post''" control0 unreachable "''/gc''" None]
    by (auto simp add: u unreachable_def)
qed

section \<open>The list envelope\<close>

lemma nodes_of_object:
  "nodes_of (JObj kvs) =
     (case map_of kvs ''node'' of
        None \<Rightarrow> Inr (JArr [])
      | Some node \<Rightarrow> py_get node ''nodes'' (JArr []))"
  by (simp add: nodes_of_def py_get_def split: option.split)

lemma unwrap_issue:
  "fst (unwrap (issue t rq s)) = (case settle (t rq) of Inl e \<Rightarrow> Inl e | Inr v \<Rightarrow> nodes_of v)"
  "issued s (unwrap (issue t rq s)) = [rq]"
  by (simp_all add: unwrap_def issue_def issued_def split: sum.split)

lemma Admin_list_shape:
  "m \<in> set admin_list_methods \<Longrightarrow>
     \<exists>rq. Admin_call t m s = unwrap (issue t rq s)"
  by (auto simp add: admin_list_methods_def Admin_verb)

lemma Control_list_shape:
  "c \<in> set control_list_methods \<Longrightarrow>
     \<exists>rq. Control_call t c s = unwrap (issue t rq s)"
  by (auto simp add: control_list_methods_def Control_verb)

text \<open>
  C3 fails at \<open>list_consumer_credentials\<close>: against a server that answers with the
  envelope around two nodes, it returns the whole envelope, where \<open>list_routes\<close>
  returns the two nodes.
\<close>

theorem list_consumer_credentials_keeps_envelope:
  "fst (Admin_call nodes_server (Credentials (A_list_consumer_credentials ''alice'')) admin0) =
     Inr (JObj [(''node'', JObj [(''nodes'', two_nodes)])]) \<and>
   fst (Admin_call nodes_server (Routes A_list_routes) admin0) = Inr two_nodes"
  by (simp add: Admin_verb issue_fst unwrap_issue settle_response nodes_server_def
      nodes_of_object py_get_def)

text \<open>
  C5 as stated fails in one part: a body without the envelope can make a list method
  raise. With the body \<open>{"node": null}\<close>, which has no \<open>nodes\<close> key, the first
  lookup returns \<open>None\<close> (the key is there, the default is not used) and the second
  one raises \<open>AttributeError\<close>.
\<close>

theorem missing_envelope_never_raises_counterexample:
  "fst (Admin_call null_node_server (Routes A_list_routes) admin0) =
     Inl (AttributeError (quoted ''NoneType'' @ '' object has no attribute '' @ quoted ''get'')) \<and>
   fst (Control_call null_node_server C_list_routes control0) =
     Inl (AttributeError (quoted ''NoneType'' @ '' object has no attribute '' @ quoted ''get''))"
  by (simp add: Admin_verb Control_verb unwrap_issue settle_response null_node_server_def
      nodes_of_object py_get_def)

text \<open>
  C5, amended: each of the twelve unwrapping list methods of the Admin client and of
  the four of the Control client issues one request and, when the answer is a response
  that is no error and parses to \<open>body\<close>, returns \<open>nodes_of body\<close>. On the object
  \<open>{"node": {"nodes": xs}}\<close> that is \<open>xs\<close>, unchanged; on an object without the key
  \<open>node\<close>, or whose \<open>node\<close> is an object without the key \<open>nodes\<close>, it is the
  empty list; on an object whose \<open>node\<close> is not an object, it is an
  \<open>AttributeError\<close>.
\<close>

theorem list_methods_unwrap_envelope:
  "(m \<in> set admin_list_methods \<longrightarrow>
     (\<exists>rq. issued s (Admin_call t m s) = [rq] \<and>
        (\<forall>r body. t rq = Response r \<and> \<not> (400 \<le> status_code r \<and> status_code r < 600) \<and>
             json_result r = Json_value body \<longrightarrow>
           fst (Admin_call t m s) = nodes_of body))) \<and>
   (c \<in> set control_list_methods \<longrightarrow>
     (\<exists>rq. issued s (Control_call t c s) = [rq] \<and>
        (\<forall>r body. t rq = Response r \<and> \<not> (400 \<le> status_code r \<and> status_code r < 600) \<and>
             json_result r = Json_value body \<longrightarrow>
           fst (Control_call t c s) = nodes_of body))) \<and>
   nodes_of (JObj [(''node'', JObj [(''nodes'', xs)])]) = Inr xs \<and>
   (map_of kvs ''node'' = Some (JObj ns) \<and> map_of ns ''nodes'' = Some xs \<longrightarrow>
      nodes_of (JObj kvs) = Inr xs) \<and>
   (map_of kvs ''node'' = None \<longrightarrow> nodes_of (JObj kvs) = Inr (JArr [])) \<and>
   (map_of kvs ''node'' = Some (JObj ns) \<and> map_of ns ''nodes'' = None \<longrightarrow>
      nodes_of (JObj kvs) = Inr (JArr [])) \<and>
   (map_of kvs ''node'' = Some v \<and> (\<forall>ns. v \<noteq> JObj ns) \<longrightarrow>
      nodes_of (JObj kvs) =
        Inl (AttributeError (quoted (type_name v) @ '' object has no attribute '' @ quoted ''get'')))"
proof (intro conjI impI)
  assume "m \<in> set admin_list_methods"
  then obtain rq where "Admin_call t m s = unwrap (issue t rq s)"
    using Admin_list_shape by blast
  then show "\<exists>rq. issued s (Admin_call t m s) = [rq] \<and>
        (\<forall>r body. t rq = Response r \<and> \<not> (400 \<le> status_code r \<and> status_code r < 600) \<and>
             json_result r = Json_value body \<longrightarrow>
           fst (Admin_call t m s) = nodes_of body)"
    by (intro exI [of _ rq]) (auto simp add: unwrap_issue settle_response)
next
  assume "c \<in> set control_list_methods"
  then obtain rq where "Control_call t c s = unwrap (issue t rq s)"
    using Control_list_shape by blast
  then show "\<exists>rq. issued s (Control_call t c s) = [rq] \<and>
        (\<forall>r body. t rq = Response r \<and> \<not> (400 \<le> status_code r \<and> status_code r < 600) \<and>
             json_result r = Json_value body \<longrightarrow>
           fst (Control_call t c s) = nodes_of body)"
    by (intro exI [of _ rq]) (auto simp add: unwrap_issue settle_response)
next
  show "nodes_of (JObj [(''node'', JObj [(''nodes'', xs)])]) = Inr xs"
    by (simp add: nodes_of_object py_get_def)
next
  assume "map_of kvs ''node'' = Some (JObj ns) \<and> map_of ns ''nodes'' = Some xs"
  then show "nodes_of (JObj kvs) = Inr xs"
    by (simp add: nodes_of_object py_get_def)
next
  assume "map_of kvs ''node'' = None"
  then show "nodes_of (JObj kvs) = Inr (JArr [])"
    by (simp add: nodes_of_object)
next
  assume "map_of kvs ''node'' = Some (JObj ns) \<and> map_of ns ''nodes'' = None"
  then show "nodes_of (JObj kvs) = Inr (JArr [])"
    by (simp add: nodes_of_object py_get_def)
next
  assume "map_of kvs ''node'' = Some v \<and> (\<forall>ns. v \<noteq> JObj ns)"
  then show "nodes_of (JObj kvs) =
      Inl (AttributeError (quoted (type_name v) @ '' object has no attribute '' @ quoted ''get''))"
    by (cases v) (simp_all add: nodes_of_object py_get_def)
qed

theorem list_methods_unwrap_envelope_witness:
  "Secrets A_list_secrets \<in> set admin_list_methods \<and>
   C_list_upstreams \<in> set control_list_methods \<and>
   fst (Admin_call nodes_server (Secrets A_list_secrets) admin0) = Inr two_nodes \<and>
   fst (Control_call nodes_server C_list_upstreams control0) = Inr two_nodes \<and>
   fst (Admin_call empty_object_server (Secrets A_list_secrets) admin0) = Inr (JArr []) \<and>
   fst (Control_call empty_object_server C_list_upstreams control0) = Inr (JArr []) \<and>
   map_of [(''node'', JObj [(''total'', JInt 0)])] ''node'' = Some (JObj [(''total'', JInt 0)]) \<and>
   map_of [(''total'', JInt 0)] ''nodes'' = None \<and>
   nodes_of (JObj [(''node'', JObj [(''total'', JInt 0)])]) = Inr (JArr [])"
proof -
  have a: "Secrets A_list_secrets \<in> set admin_list_methods"
    by (simp add: admin_list_methods_def)
  have c: "C_list_upstreams \<in> set control_list_methods"
    by (simp add: control_list_methods_def)
  have n: "nodes_of (JObj [(''node'', JObj [(''total'', JInt 0)])]) = Inr (JArr [])"
    using list_methods_unwrap_envelope
      [of "Secrets A_list_secrets" admin0 nodes_server C_list_upstreams two_nodes
        "[(''node'', JObj [(''total'', JInt 0)])]" "[(''total'', JInt 0)]" "JArr []"]
    by simp
  have an: "fst (Admin_call nodes_server (Secrets A_list_secrets) admin0) = Inr two_nodes"
    by (simp add: Admin_verb unwrap_issue settle_response nodes_server_def
        nodes_of_object py_get_def)
  have ae: "fst (Admin_call empty_object_server (Secrets A_list_secrets) admin0) = Inr (JArr [])"
    by (simp add: Admin_verb unwrap_issue settle_response empty_object_server_def
        nodes_of_object)
  have cn: "fst (Control_call nodes_server C_list_upstreams control0) = Inr two_nodes"
    by (simp add: Control_verb unwrap_issue settle_response nodes_server_def
        nodes_of_object py_get_def)
  have ce: "fst (Control_call empty_object_server C_list_upstreams control0) = Inr (JArr [])"
    by (simp add: Control_verb unwrap_issue settle_response empty_object_server_def
        nodes_of_object)
  show ?thesis
    using a c n an ae cn ce by simp
qed

section \<open>The URL of a request\<close>

lemma has_double_slash_append:
  "has_double_slash (xs @ ys) \<longleftrightarrow>
     has_double_slash xs \<or> has_double_slash ys \<or>
     (xs \<noteq> [] \<and> ys \<noteq> [] \<and> last xs = CHR ''/'' \<and> hd ys = CHR ''/'')"
proof (induction xs rule: has_double_slash.induct)
  case (1 a b cs)
  then show ?case by auto
qed (cases ys; auto)+

lemma rstrip_slash_last: "rstrip_slash b \<noteq> [] \<Longrightarrow> last (rstrip_slash b) \<noteq> CHR ''/''"
  using hd_dropWhile [of "\<lambda>c. c = CHR ''/''" "rev b"]
  by (simp add: rstrip_slash_def last_rev)

lemma lstrip_slash_hd: "lstrip_slash e \<noteq> [] \<Longrightarrow> hd (lstrip_slash e) \<noteq> CHR ''/''"
  using hd_dropWhile [of "\<lambda>c. c = CHR ''/''" e]
  by (simp add: lstrip_slash_def)

lemma joint_has_no_double_slash:
  "has_double_slash (rstrip_slash b @ ''/'' @ lstrip_slash e) \<longleftrightarrow>
     has_double_slash (rstrip_slash b) \<or> has_double_slash (lstrip_slash e)"
proof -
  have "has_double_slash (''/'' @ lstrip_slash e) = has_double_slash (lstrip_slash e)"
    using lstrip_slash_hd [of e] by (cases "lstrip_slash e") auto
  then show ?thesis
    using rstrip_slash_last [of b] by (auto simp add: has_double_slash_append)
qed

lemma issued_url_issue: "issued_url (issue t rq s) = req_url rq"
  by (cases "sent s") (simp_all add: issued_url_def issue_def)

lemma Admin_api_one_request:
  "\<exists>rq. issued s (Admin_route_api t m1 s) = [rq]"
  "\<exists>rq. issued s (Admin_service_api t m2 s) = [rq]"
  "\<exists>rq. issued s (Admin_consumer_api t m3 s) = [rq]"
  "\<exists>rq. issued s (Admin_credential_api t m4 s) = [rq]"
  "\<exists>rq. issued s (Admin_upstream_api t m5 s) = [rq]"
  "\<exists>rq. issued s (Admin_ssl_api t m6 s) = [rq]"
  "\<exists>rq. issued s (Admin_global_rule_api t m7 s) = [rq]"
  "\<exists>rq. issued s (Admin_consumer_group_api t m8 s) = [rq]"
  "\<exists>rq. issued s (Admin_plugin_config_api t m9 s) = [rq]"
  "\<exists>rq. issued s (Admin_plugin_metadata_api t m10 s) = [rq]"
  "\<exists>rq. issued s (Admin_plugin_api t m11 s) = [rq]"
  "\<exists>rq. issued s (Admin_stream_route_api t m12 s) = [rq]"
  "\<exists>rq. issued s (Admin_secret_api t m13 s) = [rq]"
  "\<exists>rq. issued s (Admin_proto_api t m14 s) = [rq]"
  "\<exists>rq. issued s (Admin_schema_api t m15 s) = [rq]"
  subgoal by (cases m1) (simp_all add: Admin_verb issued_issue unwrap_issue split: option.split)
  subgoal by (cases m2) (simp_all add: Admin_verb issued_issue unwrap_issue split: option.split)
  subgoal by (cases m3) (simp_all add: Admin_verb issued_issue unwrap_issue split: option.split)
  subgoal by (cases m4) (simp_all add: Admin_verb issued_issue unwrap_issue split: option.split)
  subgoal by (cases m5) (simp_all add: Admin_verb issued_issue unwrap_issue split: option.split)
  subgoal by (cases m6) (simp_all add: Admin_verb issued_issue unwrap_issue split: option.split)
  subgoal by (cases m7) (simp_all add: Admin_verb issued_issue unwrap_issue split: option.split)
  subgoal by (cases m8) (simp_all add: Admin_verb issued_issue unwrap_issue split: option.split)
  subgoal by (cases m9) (simp_all add: Admin_verb issued_issue unwrap_issue split: option.split)
  subgoal by (cases m10) (simp_all add: Admin_verb issued_issue unwrap_issue split: option.split)
  subgoal by (cases m11) (simp_all add: Admin_verb issued_issue unwrap_issue split: option.split)
  subgoal by (cases m12) (simp_all add: Admin_verb issued_issue unwrap_issue split: option.split)
  subgoal by (cases m13) (simp_all add: Admin_verb issued_issue unwrap_issue split: option.split)
  subgoal by (cases m14) (simp_all add: Admin_verb issued_issue unwrap_issue split: option.split)
  subgoal by (cases m15) (simp_all add: Admin_verb issued_issue unwrap_issue split: option.split)
  done

lemma Admin_call_one_request: "\<exists>rq. issued s (Admin_call t m s) = [rq]"
  by (cases m) (simp_all add: Admin_api_one_request)

lemma Control_call_one_request: "\<exists>rq. issued s (Control_call t c s) = [rq]"
  by (cases c) (simp_all add: Control_verb issued_issue unwrap_issue)

text \<open>
  C2 as stated fails in one part: the URL can contain double slashes. Only the end of
  the base URL and the start of the endpoint are stripped; an identifier is put into
  the endpoint as it is. \<open>get_route('/r1')\<close> on a client built with a trailing slash
  asks for \<open>.../routes//r1\<close>, a double slash after the one of the scheme.
\<close>

theorem no_double_slash_counterexample:
  "issued_url (Admin_call nodes_server (Routes (A_get_route ''/r1'')) admin0) =
     ''http://localhost:9180/apisix/admin/routes//r1'' \<and>
   has_double_slash (drop (length ''http://'')
     (issued_url (Admin_call nodes_server (Routes (A_get_route ''/r1'')) admin0)))"
  by (simp add: Admin_verb issued_url_issue admin0_def Admin_init_def rstrip_slash_def
      lstrip_slash_def)

text \<open>
  C2, amended: for every verb the dispatcher supports and every endpoint,
  \<open>_make_request\<close> of a client built from the base URL \<open>b\<close> issues exactly one
  request, whose URL is \<open>b\<close> without its trailing slashes, one slash, and the endpoint
  without its leading slashes. The stripped base does not end and the stripped
  endpoint does not start with a slash, so no double slash arises where they are
  joined: the URL has a double slash exactly when the stripped base or the stripped
  endpoint has one inside. Every public method of either client issues exactly one
  request.
\<close>

theorem url_is_base_slash_endpoint:
  "(upper method \<in> {''GET'', ''POST'', ''PUT'', ''DELETE'', ''PATCH''} \<longrightarrow>
     (\<exists>rq. issued \<lparr>self = Admin_init b k, sent = log\<rparr>
             (Admin_make_request t method endpoint data \<lparr>self = Admin_init b k, sent = log\<rparr>) = [rq] \<and>
           req_url rq = rstrip_slash b @ ''/'' @ lstrip_slash endpoint \<and>
           (has_double_slash (req_url rq) \<longleftrightarrow>
              has_double_slash (rstrip_slash b) \<or> has_double_slash (lstrip_slash endpoint)))) \<and>
   (upper method \<in> {''GET'', ''POST'', ''PUT''} \<longrightarrow>
     (\<exists>rq. issued \<lparr>self = Control_init b k, sent = log\<rparr>
             (Control_make_request t method endpoint data \<lparr>self = Control_init b k, sent = log\<rparr>) = [rq] \<and>
           req_url rq = rstrip_slash b @ ''/'' @ lstrip_slash endpoint \<and>
           (has_double_slash (req_url rq) \<longleftrightarrow>
              has_double_slash (rstrip_slash b) \<or> has_double_slash (lstrip_slash endpoint)))) \<and>
   (rstrip_slash b \<noteq> [] \<longrightarrow> last (rstrip_slash b) \<noteq> CHR ''/'') \<and>
   (lstrip_slash endpoint \<noteq> [] \<longrightarrow> hd (lstrip_slash endpoint) \<noteq> CHR ''/'') \<and>
   (\<exists>rq. issued s (Admin_call t m s) = [rq]) \<and>
   (\<exists>rq. issued s (Control_call t c s) = [rq])"
proof (intro conjI impI)
  let ?s = "\<lparr>self = Admin_init b k, sent = log\<rparr>"
  assume "upper method \<in> {''GET'', ''POST'', ''PUT'', ''DELETE'', ''PATCH''}"
  then obtain rq where "Admin_make_request t method endpoint data ?s = issue t rq ?s"
    and "req_url rq = base_url (self ?s) @ ''/'' @ lstrip_slash endpoint"
    using Admin_supported by blast
  then show "\<exists>rq. issued ?s (Admin_make_request t method endpoint data ?s) = [rq] \<and>
           req_url rq = rstrip_slash b @ ''/'' @ lstrip_slash endpoint \<and>
           (has_double_slash (req_url rq) \<longleftrightarrow>
              has_double_slash (rstrip_slash b) \<or> has_double_slash (lstrip_slash endpoint))"
    using joint_has_no_double_slash [of b endpoint]
    by (intro exI [of _ rq]) (simp add: issued_issue Admin_init_fields)
next
  let ?s = "\<lparr>self = Control_init b k, sent = log\<rparr>"
  assume "upper method \<in> {''GET'', ''POST'', ''PUT''}"
  then obtain rq where "Control_make_request t method endpoint data ?s = issue t rq ?s"
    and "req_url rq = base_url (self ?s) @ ''/'' @ lstrip_slash endpoint"
    using Control_supported by blast
  then show "\<exists>rq. issued ?s (Control_make_request t method endpoint data ?s) = [rq] \<and>
           req_url rq = rstrip_slash b @ ''/'' @ lstrip_slash endpoint \<and>
           (has_double_slash (req_url rq) \<longleftrightarrow>
              has_double_slash (rstrip_slash b) \<or> has_double_slash (lstrip_slash endpoint))"
    using joint_has_no_double_slash [of b endpoint]
    by (intro exI [of _ rq]) (simp add: issued_issue Control_init_fields)
next
  assume "rstrip_slash b \<noteq> []"
  then show "last (rstrip_slash b) \<noteq> CHR ''/''" by (rule rstrip_slash_last)
next
  assume "lstrip_slash endpoint \<noteq> []"
  then show "hd (lstrip_slash endpoint) \<noteq> CHR ''/''" by (rule lstrip_slash_hd)
next
  show "\<exists>rq. issued s (Admin_call t m s) = [rq]" by (rule Admin_call_one_request)
next
  show "\<exists>rq. issued s (Control_call t c s) = [rq]" by (rule Control_call_one_request)
qed

theorem url_is_base_slash_endpoint_witness:
  "upper ''put'' \<in> {''GET'', ''POST'', ''PUT'', ''DELETE'', ''PATCH''} \<and>
   upper ''put'' \<in> {''GET'', ''POST'', ''PUT''} \<and>
   rstrip_slash ''/apisix/admin//'' = ''/apisix/admin'' \<and>
   lstrip_slash ''//routes/r1'' = ''routes/r1'' \<and>
   last (rstrip_slash ''/apisix/admin//'') \<noteq> CHR ''/'' \<and>
   hd (lstrip_slash ''//routes/r1'') \<noteq> CHR ''/'' \<and>
   issued \<lparr>self = Admin_init ''/apisix/admin//'' ''key'', sent = []\<rparr>
     (Admin_make_request nodes_server ''put'' ''//routes/r1'' (Some [])
        \<lparr>self = Admin_init ''/apisix/admin//'' ''key'', sent = []\<rparr>) =
     [\<lparr>req_verb = PUT, req_url = ''/apisix/admin/routes/r1'',
       req_headers = [(''Content-Type'', ''application/json''), (''X-API-KEY'', ''key'')],
       req_json = Some []\<rparr>] \<and>
   \<not> has_double_slash ''/apisix/admin/routes/r1''"
proof -
  have u: "upper ''put'' = ''PUT''"
    by (simp add: upper_def upper_char_def)
  have r: "rstrip_slash ''/apisix/admin//'' = ''/apisix/admin''"
    by (simp add: rstrip_slash_def)
  have l: "lstrip_slash ''//routes/r1'' = ''routes/r1''"
    by (simp add: lstrip_slash_def)
  show ?thesis
    using url_is_base_slash_endpoint
      [of "''put''" "''/apisix/admin//''" "''key''" "[]" nodes_server "''//routes/r1''" "Some []"]
    by (simp add: u r l Admin_make_request_def issued_issue Admin_init_def)
qed

section \<open>The ttl query parameter\<close>

lemma str_int_60: "str_int 60 = ''60''"
  by (simp add: str_int_def str_nat.simps)

lemma has_query_append: "has_query (xs @ ys) \<longleftrightarrow> has_query xs \<or> has_query ys"
  by (auto simp add: has_query_def)

lemma has_query_Cons: "has_query (c # cs) \<longleftrightarrow> c = CHR ''?'' \<or> has_query cs"
  by (auto simp add: has_query_def)

lemma has_query_Nil: "\<not> has_query []"
  by (simp add: has_query_def)

text \<open>
  C8 as stated fails in one part: without \<open>ttl\<close> the URL can still have a query
  string, since the identifier is put into the path as it is. \<open>update_route\<close> with
  the identifier \<open>r1?x=1\<close> and no \<open>ttl\<close> asks for \<open>.../routes/r1?x=1\<close>.
\<close>

theorem no_ttl_no_query_string_counterexample:
  "issued_url (Admin_call nodes_server (Routes (A_update_route ''r1?x=1'' [] None)) admin0) =
     ''http://localhost:9180/apisix/admin/routes/r1?x=1'' \<and>
   has_query (issued_url (Admin_call nodes_server (Routes (A_update_route ''r1?x=1'' [] None)) admin0))"
  by (simp add: Admin_verb issued_url_issue admin0_def Admin_init_def rstrip_slash_def
      lstrip_slash_def has_query_def)

text \<open>
  C8, amended: for \<open>create_route\<close>, \<open>update_route\<close>, \<open>update_route_with_path\<close> and
  \<open>create_route_with_id\<close>, with \<open>ttl = n\<close> the URL of the request is the base URL,
  the path of the method and \<open>?ttl=\<close> followed by the decimal text of \<open>n\<close>; with no
  \<open>ttl\<close> it is the base URL and the path alone, and has no query string when neither
  the base URL nor an identifier has a question mark.
\<close>

theorem ttl_query_string:
  "issued_url (Admin_call t (Routes (A_create_route cfg (Some n))) s) =
     base_url (self s) @ ''/routes?ttl='' @ str_int n \<and>
   issued_url (Admin_call t (Routes (A_update_route route_id cfg (Some n))) s) =
     base_url (self s) @ ''/routes/'' @ route_id @ ''?ttl='' @ str_int n \<and>
   issued_url (Admin_call t (Routes (A_update_route_with_path route_id route_path cfg (Some n))) s) =
     base_url (self s) @ ''/routes/'' @ route_id @ ''/'' @ route_path @ ''?ttl='' @ str_int n \<and>
   issued_url (Admin_call t (Routes (A_create_route_with_id route_id cfg (Some n))) s) =
     base_url (self s) @ ''/routes/'' @ route_id @ ''?ttl='' @ str_int n \<and>
   issued_url (Admin_call t (Routes (A_create_route cfg None)) s) =
     base_url (self s) @ ''/routes'' \<and>
   issued_url (Admin_call t (Routes (A_update_route route_id cfg None)) s) =
     base_url (self s) @ ''/routes/'' @ route_id \<and>
   issued_url (Admin_call t (Routes (A_update_route_with_path route_id route_path cfg None)) s) =
     base_url (self s) @ ''/routes/'' @ route_id @ ''/'' @ route_path \<and>
   issued_url (Admin_call t (Routes (A_create_route_with_id route_id cfg None)) s) =
     base_url (self s) @ ''/routes/'' @ route_id \<and>
   (\<not> has_query (base_url (self s)) \<and> \<not> has_query route_id \<and> \<not> has_query route_path \<longrightarrow>
      \<not> has_query (issued_url (Admin_call t (Routes (A_create_route cfg None)) s)) \<and>
      \<not> has_query (issued_url (Admin_call t (Routes (A_update_route route_id cfg None)) s)) \<and>
      \<not> has_query (issued_url
            (Admin_call t (Routes (A_update_route_with_path route_id route_path cfg None)) s)) \<and>
      \<not> has_query (issued_url (Admin_call t (Routes (A_create_route_with_id route_id cfg None)) s)))"
  by (simp add: Admin_verb issued_url_issue lstrip_slash_def has_query_append has_query_Cons
      has_query_Nil)

theorem ttl_query_string_witness:
  "\<not> has_query (base_url (self admin0)) \<and> \<not> has_query ''r1'' \<and> \<not> has_query ''uri'' \<and>
   issued_url (Admin_call nodes_server (Routes (A_create_route [] (Some 60))) admin0) =
     ''http://localhost:9180/apisix/admin/routes?ttl=60'' \<and>
   issued_url (Admin_call nodes_server (Routes (A_create_route_with_id ''r1'' [] (Some 60))) admin0) =
     ''http://localhost:9180/apisix/admin/routes/r1?ttl=60'' \<and>
   issued_url (Admin_call nodes_server (Routes (A_update_route ''r1'' [] None)) admin0) =
     ''http://localhost:9180/apisix/admin/routes/r1'' \<and>
   \<not> has_query (issued_url (Admin_call nodes_server (Routes (A_update_route ''r1'' [] None)) admin0)) \<and>
   \<not> has_query (issued_url
        (Admin_call nodes_server (Routes (A_update_route_with_path ''r1'' ''uri'' [] None)) admin0))"
proof -
  have b: "base_url (self admin0) = ''http://localhost:9180/apisix/admin''"
    by (simp add: admin0_def Admin_init_def rstrip_slash_def)
  have q: "\<not> has_query (base_url (self admin0))" "\<not> has_query ''r1''" "\<not> has_query ''uri''"
    by (simp_all add: b has_query_def)
  note w = ttl_query_string [of nodes_server "[]" 60 admin0 "''r1''" "''uri''"]
  show ?thesis
    using w q by (simp add: b str_int_60 has_query_def)
qed

end
